theory Spec2Isabelle
  imports Main
begin

section \<open>Values exchanged with the browser\<close>

text \<open>
  The script (\<^verbatim>\<open>yavuzselim_ercikan.js\<close>) talks to three browser facilities: the
  key/value store \<^verbatim>\<open>localStorage\<close>, the network (\<^verbatim>\<open>fetch\<close>) and the page (through
  jQuery). Exceptions are values: \<open>SyntaxError\<close> is what \<^verbatim>\<open>JSON.parse\<close> and
  \<^verbatim>\<open>response.json()\<close> throw on text that is not JSON, \<open>TypeError\<close> is what a method
  call on a value without that method throws (and what a rejected \<^verbatim>\<open>fetch\<close> carries),
  \<open>FetchError\<close> is the script's own \<^verbatim>\<open>new Error("Failed to fetch products.")\<close>, and
  \<open>SelectorError\<close> is what jQuery throws on a selector that it cannot read.
\<close>

datatype error = SyntaxError | TypeError | FetchError | SelectorError

text \<open>
  A JSON value, as far as the script can tell values apart: it tests a value for
  truthiness (\<^verbatim>\<open>!products\<close>, \<^verbatim>\<open>... || []\<close>) and calls array methods on it
  (\<^verbatim>\<open>map\<close>, \<^verbatim>\<open>find\<close>, \<^verbatim>\<open>push\<close>, \<^verbatim>\<open>filter\<close>, \<^verbatim>\<open>forEach\<close>).
  \<open>Falsy\<close> stands for \<^verbatim>\<open>null\<close>, \<^verbatim>\<open>false\<close>, \<^verbatim>\<open>0\<close> and the empty string,
  \<open>NonArray\<close> for every other value that is not an array (objects, other numbers
  and strings, \<^verbatim>\<open>true\<close>), and \<open>Array xs\<close> for an array; every array is truthy,
  the empty one too.
\<close>

datatype 'a json = Falsy | NonArray | Array "'a list"

text \<open>
  A string held by the store or sent by the network is either the JSON text of a
  value or a string that is not JSON text at all; \<open>Malformed s\<close> is such a string \<open>s\<close>.
\<close>

datatype 'a json_text = Malformed string | Json "'a json"

text \<open>
  \<^verbatim>\<open>JSON.parse(localStorage.getItem(key))\<close>: \<^verbatim>\<open>getItem\<close> gives \<^verbatim>\<open>null\<close> for a
  key that is not stored (\<open>None\<close>), and \<^verbatim>\<open>JSON.parse(null)\<close> is \<^verbatim>\<open>null\<close>.
\<close>

fun JSON_parse :: "'a json_text option \<Rightarrow> error + 'a json" where
  "JSON_parse None = Inr Falsy"
| "JSON_parse (Some (Malformed s)) = Inl SyntaxError"
| "JSON_parse (Some (Json v)) = Inr v"

definition JSON_stringify :: "'a json \<Rightarrow> 'a json_text" where
  "JSON_stringify v = Json v"

fun truthy :: "'a json \<Rightarrow> bool" where
  "truthy Falsy = False"
| "truthy NonArray = True"
| "truthy (Array xs) = True"

text \<open>
  A product of the feed. The script reads \<^verbatim>\<open>id\<close>, \<^verbatim>\<open>img\<close>, \<^verbatim>\<open>name\<close>,
  \<^verbatim>\<open>price\<close> and \<^verbatim>\<open>url\<close>; \<open>url\<close> is \<open>None\<close> for a product without one.
  An identifier is a value of JavaScript that \<^verbatim>\<open>===\<close> compares by what it is (a number,
  a string); \<open>'id\<close> is the type of these values.
\<close>

record 'id product =
  id' :: 'id
  name :: string
  img :: string
  price :: int
  url :: "string option"

text \<open>The answer of the network to \<^verbatim>\<open>fetch(productAPI)\<close>; \<open>None\<close> is a rejected fetch.\<close>

record 'id response =
  ok :: bool
  body :: "'id product json_text"

section \<open>The state of the browser\<close>

datatype key = localStorageKey | favoritesKey

text \<open>What the script does to the world outside its own variables, in order.\<close>

datatype 'id event =
    Fetch
  | SetItem key
  | Render
  | RestoreFavorites
  | WindowOpen string
  | ConsoleError 'id
  | Uncaught error

text \<open>
  A rendered \<^verbatim>\<open>.carousel-item\<close>. \<open>attr_id\<close> is the identifier that
  \<^verbatim>\<open>data-id="${product.id}"\<close> wrote into the page, \<open>data_id\<close> is the value that
  \<^verbatim>\<open>.data("id")\<close> gives for the item, and \<open>favorited\<close> says whether its
  \<^verbatim>\<open>.carousel-fav\<close> button has the class \<^verbatim>\<open>favorited\<close>.
\<close>

record 'id item =
  attr_id :: 'id
  data_id :: 'id
  favorited :: bool

text \<open>
  \<open>productCarouselData\<close> and \<open>favorites\<close> are the two keys of \<^verbatim>\<open>localStorage\<close>;
  \<open>products\<close> and \<open>itemWidth\<close> are the variables that the handlers of
  \<^verbatim>\<open>setEvents\<close> close over; \<open>rendered\<close> and \<open>items\<close> are the page;
  \<open>scrollLeft\<close> is the offset of the track container as \<^verbatim>\<open>scrollLeft()\<close> reads it
  now, and \<open>animations\<close> are the targets of the animations that \<^verbatim>\<open>animate\<close> has
  queued on it and that have not ended, the running one first.
\<close>

record 'id world =
  productCarouselData :: "'id product json_text option"
  favorites :: "'id json_text option"
  products :: "'id product json"
  itemWidth :: "int option"
  rendered :: bool
  items :: "'id item list"
  scrollLeft :: int
  animations :: "int list"
  log :: "'id event list"

text \<open>
  What the page and jQuery answer, none of it code of the script. The geometry:
  \<^verbatim>\<open>$items.outerWidth(true)\<close>, \<^verbatim>\<open>$track[0].scrollWidth\<close> and
  \<^verbatim>\<open>$trackContainer.width()\<close>, in whole pixels. The identifiers: \<open>jq_data x\<close> is
  the value that \<^verbatim>\<open>.data("id")\<close> gives for an element written with
  \<^verbatim>\<open>data-id="${x}"\<close> (jQuery converts the text of the attribute: the text of the
  string \<^verbatim>\<open>"42"\<close> comes back as the number 42); and \<open>jq_select x\<close> is what the selector
  \<^verbatim>\<open>.carousel-item[data-id="${x}"]\<close> does: \<open>None\<close> when jQuery throws on it (a
  text with a quote in it), otherwise the test of which elements it selects, by the
  identifier they were written with (it compares the texts: the number 42 also selects
  an element written with the string \<^verbatim>\<open>"42"\<close>).
\<close>

record 'id page =
  outerWidth :: nat
  scrollWidth :: nat
  width :: nat
  jq_data :: "'id \<Rightarrow> 'id"
  jq_select :: "'id \<Rightarrow> ('id \<Rightarrow> bool) option"

definition fetches :: "'id world \<Rightarrow> nat" where
  "fetches w = length (filter (\<lambda>e. e = Fetch) (log w))"

text \<open>A page load: the store and the history stay, the page and the script's variables go.\<close>

definition reload :: "'id world \<Rightarrow> 'id world" where
  "reload w = w\<lparr>products := Falsy, itemWidth := None, rendered := False,
                items := [], scrollLeft := 0, animations := []\<rparr>"

section \<open>The script\<close>

subsection \<open>fetchProducts\<close>

definition fetchProducts :: "'id response option \<Rightarrow> error + 'id product json" where
  "fetchProducts net =
     (case net of
        None \<Rightarrow> Inl TypeError
      | Some response \<Rightarrow>
          if \<not> ok response then Inl FetchError
          else JSON_parse (Some (body response)))"

subsection \<open>buildHTML\<close>

text \<open>
  \<^verbatim>\<open>products.map\<close> throws on a value that is not an array. Every item is written
  with the identifier of its product, and what \<^verbatim>\<open>.data("id")\<close> will give for it is
  what jQuery reads back from there; the markup is taken as intact (an identifier whose
  text holds a quote or an angle bracket would break it). The new track is not scrolled
  and not animated, and every favorite button starts without the class.
\<close>

definition buildHTML :: "'id page \<Rightarrow> 'id product json \<Rightarrow> 'id world \<Rightarrow> error + 'id world" where
  "buildHTML lay ps w =
     (case ps of
        Array xs \<Rightarrow>
          Inr (w\<lparr>rendered := True,
                 items := map (\<lambda>product. \<lparr>attr_id = id' product,
                                          data_id = jq_data lay (id' product),
                                          favorited = False\<rparr>) xs,
                 scrollLeft := 0,
                 animations := [],
                 log := log w @ [Render]\<rparr>)
      | _ \<Rightarrow> Inl TypeError)"

subsection \<open>setEvents: the handlers\<close>

text \<open>
  What a handler leaves behind: the exception it threw, if any, the world after it, and
  whether it called \<^verbatim>\<open>stopPropagation\<close>.
\<close>

record 'id outcome =
  thrown :: "error option"
  after :: "'id world"
  stopped :: bool

definition maxScrollLeft :: "'id page \<Rightarrow> int" where
  "maxScrollLeft lay = int (scrollWidth lay) - int (width lay)"

text \<open>
  The handlers of \<^verbatim>\<open>.carousel-next\<close> and \<^verbatim>\<open>.carousel-prev\<close>. Each reads the
  offset as it is at the click, works out a target with the item width that
  \<^verbatim>\<open>setEvents\<close> measured once, and hands the target to \<^verbatim>\<open>animate\<close>, which puts it
  at the end of the queue; the offset itself moves later (\<open>frame\<close>, \<open>finish\<close>). With no
  item, \<^verbatim>\<open>itemWidth\<close> is \<^verbatim>\<open>undefined\<close> and both comparisons are false.
\<close>

definition next_click :: "'id page \<Rightarrow> 'id world \<Rightarrow> 'id outcome" where
  "next_click lay w =
     (let currentScrollLeft = scrollLeft w;
          target = (case itemWidth w of
                      None \<Rightarrow> maxScrollLeft lay
                    | Some iw \<Rightarrow>
                        if currentScrollLeft + iw \<le> maxScrollLeft lay
                        then currentScrollLeft + iw
                        else maxScrollLeft lay)
      in \<lparr>thrown = None, after = w\<lparr>animations := animations w @ [target]\<rparr>,
          stopped = False\<rparr>)"

definition prev_click :: "'id world \<Rightarrow> 'id outcome" where
  "prev_click w =
     (let currentScrollLeft = scrollLeft w;
          target = (case itemWidth w of
                      None \<Rightarrow> 0
                    | Some iw \<Rightarrow>
                        if currentScrollLeft - iw \<ge> 0
                        then currentScrollLeft - iw
                        else 0)
      in \<lparr>thrown = None, after = w\<lparr>animations := animations w @ [target]\<rparr>,
          stopped = False\<rparr>)"

text \<open>\<^verbatim>\<open>product?.url\<close> as a condition: a product was found and its url is not empty.\<close>

fun has_url :: "'id product option \<Rightarrow> string option" where
  "has_url None = None"
| "has_url (Some product) =
     (case url product of
        None \<Rightarrow> None
      | Some u \<Rightarrow> if u = [] then None else Some u)"

text \<open>The handler of the \<open>i\<close>-th \<^verbatim>\<open>.carousel-item\<close>.\<close>

definition item_click :: "nat \<Rightarrow> 'id world \<Rightarrow> 'id outcome" where
  "item_click i w =
     (let productId = data_id (items w ! i)
      in case products w of
           Array xs \<Rightarrow>
             (case has_url (find (\<lambda>p. id' p = productId) xs) of
                Some u \<Rightarrow>
                  \<lparr>thrown = None, after = w\<lparr>log := log w @ [WindowOpen u]\<rparr>, stopped = False\<rparr>
              | None \<Rightarrow>
                  \<lparr>thrown = None, after = w\<lparr>log := log w @ [ConsoleError productId]\<rparr>,
                   stopped = False\<rparr>)
         | _ \<Rightarrow> \<lparr>thrown = Some TypeError, after = w, stopped = False\<rparr>)"

text \<open>
  \<^verbatim>\<open>JSON.parse(localStorage.getItem(favoritesKey)) || []\<close>, followed by the first
  array method called on the result, which throws on a value that is not an array.
\<close>

definition stored_favorites :: "'id world \<Rightarrow> error + 'id list" where
  "stored_favorites w =
     (case JSON_parse (favorites w) of
        Inl e \<Rightarrow> Inl e
      | Inr v \<Rightarrow>
          (case (if truthy v then v else Array []) of
             Array fs \<Rightarrow> Inr fs
           | _ \<Rightarrow> Inl TypeError))"

text \<open>
  The handler of the \<^verbatim>\<open>.carousel-fav\<close> button of the \<open>i\<close>-th item. The class is
  toggled before the store is read, so it stays toggled when the read throws.
\<close>

definition fav_click :: "nat \<Rightarrow> 'id world \<Rightarrow> 'id outcome" where
  "fav_click i w =
     (let productId = data_id (items w ! i);
          isFavorited = \<not> favorited (items w ! i);
          w1 = w\<lparr>items := (items w)[i := (items w ! i)\<lparr>favorited := isFavorited\<rparr>]\<rparr>
      in case stored_favorites w1 of
           Inl e \<Rightarrow> \<lparr>thrown = Some e, after = w1, stopped = True\<rparr>
         | Inr fs \<Rightarrow>
             (let fs' = (if isFavorited then fs @ [productId]
                         else filter (\<lambda>x. x \<noteq> productId) fs)
              in \<lparr>thrown = None,
                  after = w1\<lparr>favorites := Some (JSON_stringify (Array fs')),
                             log := log w1 @ [SetItem favoritesKey]\<rparr>,
                  stopped = True\<rparr>))"

subsection \<open>setEvents: restoring the favorites\<close>

text \<open>
  \<^verbatim>\<open>$(`.carousel-item[data-id="${id}"] .carousel-fav`).addClass("favorited")\<close> for a
  selector that jQuery accepted: the class goes to the items that it selects.
\<close>

definition addClass_favorited :: "('id \<Rightarrow> bool) \<Rightarrow> 'id item list \<Rightarrow> 'id item list" where
  "addClass_favorited selected its =
     map (\<lambda>it. if selected (attr_id it) then it\<lparr>favorited := True\<rparr> else it) its"

text \<open>
  \<^verbatim>\<open>favorites.forEach\<close> over the stored identifiers: the first selector that jQuery
  throws on ends the loop, with the classes added so far.
\<close>

fun restore :: "'id page \<Rightarrow> 'id list \<Rightarrow> 'id item list \<Rightarrow> error option \<times> 'id item list" where
  "restore lay [] its = (None, its)"
| "restore lay (x # fs) its =
     (case jq_select lay x of
        None \<Rightarrow> (Some SelectorError, its)
      | Some selected \<Rightarrow> restore lay fs (addClass_favorited selected its))"

definition setEvents :: "'id page \<Rightarrow> 'id product json \<Rightarrow> 'id world \<Rightarrow> error option \<times> 'id world" where
  "setEvents lay ps w =
     (let w1 = w\<lparr>products := ps,
                 itemWidth := (if items w = [] then None else Some (int (outerWidth lay)))\<rparr>
      in case stored_favorites w1 of
           Inl e \<Rightarrow> (Some e, w1)
         | Inr fs \<Rightarrow>
             (case restore lay fs (items w1) of
                (Some e, its) \<Rightarrow> (Some e, w1\<lparr>items := its\<rparr>)
              | (None, its) \<Rightarrow>
                  (None, w1\<lparr>items := its, log := log w1 @ [RestoreFavorites]\<rparr>)))"

subsection \<open>init\<close>

text \<open>
  The result is the exception that ended \<^verbatim>\<open>init\<close>, if any, and the world it left.
  \<^verbatim>\<open>buildCSS\<close> only adds a style sheet and is left out.
\<close>

definition init :: "'id page \<Rightarrow> 'id response option \<Rightarrow> 'id world \<Rightarrow> error option \<times> 'id world" where
  "init lay net w =
     (case JSON_parse (productCarouselData w) of
        Inl e \<Rightarrow> (Some e, w)
      | Inr cached \<Rightarrow>
          (case (if \<not> truthy cached
                 then (let w1 = w\<lparr>log := log w @ [Fetch]\<rparr>
                       in case fetchProducts net of
                            Inl e \<Rightarrow> (Inl e, w1)
                          | Inr ps \<Rightarrow>
                              (Inr ps, w1\<lparr>productCarouselData := Some (JSON_stringify ps),
                                          log := log w1 @ [SetItem localStorageKey]\<rparr>))
                 else (Inr cached, w)) of
             (Inl e, w2) \<Rightarrow> (Some e, w2)
           | (Inr ps, w2) \<Rightarrow>
               (case buildHTML lay ps w2 of
                  Inl e \<Rightarrow> (Some e, w2)
                | Inr w3 \<Rightarrow> setEvents lay ps w3)))"

subsection \<open>Clicks\<close>

text \<open>
  A click goes to the handler of the element clicked and then, unless that handler
  stopped it, to the handlers of the elements around it: the favorite button lies inside
  its item, the two arrows lie outside every item. An exception ends the handler that
  threw it, not the click, and is reported by the browser. Before the carousel is
  rendered there is nothing to click, and there is no item beyond the last.
\<close>

datatype target = NextButton | PrevButton | ItemArea nat | FavButton nat

fun dispatch :: "('id world \<Rightarrow> 'id outcome) list \<Rightarrow> 'id world \<Rightarrow> 'id world" where
  "dispatch [] w = w"
| "dispatch (handler # outer) w =
     (let out = handler w;
          w1 = (case thrown out of
                  None \<Rightarrow> after out
                | Some e \<Rightarrow> (after out)\<lparr>log := log (after out) @ [Uncaught e]\<rparr>)
      in if stopped out then w1 else dispatch outer w1)"

fun handlers :: "'id page \<Rightarrow> target \<Rightarrow> ('id world \<Rightarrow> 'id outcome) list" where
  "handlers lay NextButton = [next_click lay]"
| "handlers lay PrevButton = [prev_click]"
| "handlers lay (ItemArea i) = [item_click i]"
| "handlers lay (FavButton i) = [fav_click i, item_click i]"

fun present :: "'id world \<Rightarrow> target \<Rightarrow> bool" where
  "present w NextButton = rendered w"
| "present w PrevButton = rendered w"
| "present w (ItemArea i) = (rendered w \<and> i < length (items w))"
| "present w (FavButton i) = (rendered w \<and> i < length (items w))"

definition click :: "'id page \<Rightarrow> target \<Rightarrow> 'id world \<Rightarrow> 'id world" where
  "click lay t w = (if present w t then dispatch (handlers lay t) w else w)"

subsection \<open>Animations\<close>

text \<open>
  \<^verbatim>\<open>animate({ scrollLeft: target }, 300)\<close> moves the offset over 300 ms, between
  the handlers: the animation at the head of the queue runs, the others wait for it. A
  frame of the running animation puts the offset somewhere between where it is and the
  target; the end of the animation puts it on the target and starts the next one.
\<close>

definition frame :: "int \<Rightarrow> 'id world \<Rightarrow> 'id world" where
  "frame p w =
     (case animations w of
        [] \<Rightarrow> w
      | target # waiting \<Rightarrow>
          if min (scrollLeft w) target \<le> p \<and> p \<le> max (scrollLeft w) target
          then w\<lparr>scrollLeft := p\<rparr> else w)"

definition finish :: "'id world \<Rightarrow> 'id world" where
  "finish w =
     (case animations w of
        [] \<Rightarrow> w
      | target # waiting \<Rightarrow> w\<lparr>scrollLeft := target, animations := waiting\<rparr>)"

text \<open>What happens on the page after \<^verbatim>\<open>init\<close>: the user clicks, and time passes.\<close>

datatype happening = Click target | Frame int | Finish

fun happen :: "'id page \<Rightarrow> happening \<Rightarrow> 'id world \<Rightarrow> 'id world" where
  "happen lay (Click t) w = click lay t w"
| "happen lay (Frame p) w = frame p w"
| "happen lay Finish w = finish w"

definition run :: "'id page \<Rightarrow> happening list \<Rightarrow> 'id world \<Rightarrow> 'id world" where
  "run lay hs w = foldl (\<lambda>w h. happen lay h w) w hs"


section \<open>The favorites as the store holds them\<close>

text \<open>
  The persisted sequence of favorite identifiers, read the way the script reads it, and
  the set of identifiers that occur in it; a store that cannot be read has none.
\<close>

definition FavoriteSet :: "'id world \<Rightarrow> 'id set" where
  "FavoriteSet w = (case stored_favorites w of Inl e \<Rightarrow> {} | Inr fs \<Rightarrow> set fs)"

text \<open>
  No drift: every rendered item shows the class exactly when its identifier is a
  persisted favorite.
\<close>

definition in_sync :: "'id world \<Rightarrow> bool" where
  "in_sync w = list_all (\<lambda>it. favorited it = (data_id it \<in> FavoriteSet w)) (items w)"

definition readable :: "'id world \<Rightarrow> bool" where
  "readable w = (case stored_favorites w of Inl e \<Rightarrow> False | Inr fs \<Rightarrow> True)"

text \<open>
  The page keeps the identifiers \<open>ids\<close> of the products and \<open>fs\<close> of the stored
  favorites as they are: it reads each product identifier back unchanged, and the
  selector of each stored favorite selects, among the products, those with this very
  identifier. Numbers are kept so; a string that reads as a number is not.
\<close>

definition keeps :: "'id page \<Rightarrow> 'id list \<Rightarrow> 'id list \<Rightarrow> bool" where
  "keeps lay ids fs =
     (list_all (\<lambda>x. jq_data lay x = x) ids
      \<and> list_all (\<lambda>f. case jq_select lay f of
                         None \<Rightarrow> False
                       | Some selected \<Rightarrow> list_all (\<lambda>x. selected x = (x = f)) ids) fs)"


text \<open>Events that only the handler of an item produces.\<close>

fun navigation :: "'id event \<Rightarrow> bool" where
  "navigation (WindowOpen u) = True"
| "navigation (ConsoleError x) = True"
| "navigation e = False"

section \<open>A shop to run the script on\<close>

text \<open>
  Three products with numbers for identifiers, the second without a destination; a feed
  that serves them, one that is down, and one that serves two products under one
  identifier; a track three items wide behind a window one item wide, on a page that
  keeps numbers as they are.
\<close>

definition shirt :: "int product" where
  "shirt = \<lparr>id' = 1, name = ''Shirt'', img = ''shirt.jpg'', price = 199,
            url = Some ''https://shop.example/shirt''\<rparr>"

definition scarf :: "int product" where
  "scarf = \<lparr>id' = 2, name = ''Scarf'', img = ''scarf.jpg'', price = 89, url = None\<rparr>"

definition hat :: "int product" where
  "hat = \<lparr>id' = 3, name = ''Hat'', img = ''hat.jpg'', price = 120,
          url = Some ''https://shop.example/hat''\<rparr>"

definition shirt_again :: "int product" where
  "shirt_again = \<lparr>id' = 1, name = ''Shirt, blue'', img = ''shirt-blue.jpg'', price = 209,
            url = Some ''https://shop.example/shirt-blue''\<rparr>"

definition feed :: "int response" where
  "feed = \<lparr>ok = True, body = Json (Array [shirt, scarf, hat])\<rparr>"

definition outage :: "int response" where
  "outage = \<lparr>ok = False, body = Malformed ''Service Unavailable''\<rparr>"

definition twin_feed :: "int response" where
  "twin_feed = \<lparr>ok = True, body = Json (Array [shirt, shirt_again])\<rparr>"

definition screen :: "int page" where
  "screen = \<lparr>outerWidth = 100, scrollWidth = 300, width = 100,
             jq_data = (\<lambda>x. x), jq_select = (\<lambda>f. Some (\<lambda>x. x = f))\<rparr>"

text \<open>The same page after the window was made half as wide.\<close>

definition narrowed :: "int page" where
  "narrowed = screen\<lparr>outerWidth := 50, scrollWidth := 150, width := 50\<rparr>"

text \<open>A first visit: nothing stored, nothing on the page.\<close>

definition fresh :: "'id world" where
  "fresh = \<lparr>productCarouselData = None, favorites = None, products = Falsy,
            itemWidth = None, rendered = False, items = [], scrollLeft = 0,
            animations = [], log = []\<rparr>"

text \<open>The first visit after \<^verbatim>\<open>init\<close>.\<close>

definition loaded :: "int world" where
  "loaded = \<lparr>productCarouselData = Some (Json (Array [shirt, scarf, hat])),
             favorites = None,
             products = Array [shirt, scarf, hat],
             itemWidth = Some 100,
             rendered = True,
             items = [\<lparr>attr_id = 1, data_id = 1, favorited = False\<rparr>,
                      \<lparr>attr_id = 2, data_id = 2, favorited = False\<rparr>,
                      \<lparr>attr_id = 3, data_id = 3, favorited = False\<rparr>],
             scrollLeft = 0,
             animations = [],
             log = [Fetch, SetItem localStorageKey, Render, RestoreFavorites]\<rparr>"

text \<open>
  A later visit: the products are cached, and the favorites are the scarf and a product
  that the shop no longer has.
\<close>

definition returning :: "int world" where
  "returning = fresh\<lparr>productCarouselData := Some (Json (Array [shirt, scarf, hat])),
                     favorites := Some (Json (Array [2, 7]))\<rparr>"

text \<open>The later visit after \<^verbatim>\<open>init\<close>.\<close>

definition restored :: "int world" where
  "restored = \<lparr>productCarouselData = Some (Json (Array [shirt, scarf, hat])),
               favorites = Some (Json (Array [2, 7])),
               products = Array [shirt, scarf, hat],
               itemWidth = Some 100,
               rendered = True,
               items = [\<lparr>attr_id = 1, data_id = 1, favorited = False\<rparr>,
                        \<lparr>attr_id = 2, data_id = 2, favorited = True\<rparr>,
                        \<lparr>attr_id = 3, data_id = 3, favorited = False\<rparr>],
               scrollLeft = 0,
               animations = [],
               log = [Render, RestoreFavorites]\<rparr>"

text \<open>A visit whose cached products are not JSON.\<close>

definition corrupt :: "int world" where
  "corrupt = fresh\<lparr>productCarouselData := Some (Malformed ''{not valid json'')\<rparr>"

text \<open>
  The first visit to the shop with the two shirts, after \<^verbatim>\<open>init\<close>, and after a click
  on the favorite button of the first shirt.
\<close>

definition twins :: "int world" where
  "twins = \<lparr>productCarouselData = Some (Json (Array [shirt, shirt_again])),
            favorites = None,
            products = Array [shirt, shirt_again],
            itemWidth = Some 100,
            rendered = True,
            items = [\<lparr>attr_id = 1, data_id = 1, favorited = False\<rparr>,
                     \<lparr>attr_id = 1, data_id = 1, favorited = False\<rparr>],
            scrollLeft = 0,
            animations = [],
            log = [Fetch, SetItem localStorageKey, Render, RestoreFavorites]\<rparr>"

definition twins_toggled :: "int world" where
  "twins_toggled = click screen (FavButton 0) twins"

text \<open>
  What holds of every world that a completed \<^verbatim>\<open>init\<close> and anything after it lead to,
  when the items have identifiers of their own.
\<close>

definition steady :: "'id world \<Rightarrow> bool" where
  "steady w = (rendered w \<and> in_sync w \<and> readable w \<and> distinct (map data_id (items w)))"

section \<open>Reading the store\<close>

lemma stored_favorites_after_write [simp]:
  "stored_favorites (w\<lparr>favorites := Some (JSON_stringify (Array fs))\<rparr>) = Inr fs"
  by (simp add: stored_favorites_def JSON_stringify_def)

lemma stored_favorites_frame [simp]:
  "stored_favorites (w\<lparr>items := its\<rparr>) = stored_favorites w"
  "stored_favorites (w\<lparr>log := l\<rparr>) = stored_favorites w"
  "stored_favorites (w\<lparr>scrollLeft := x\<rparr>) = stored_favorites w"
  "stored_favorites (w\<lparr>animations := as\<rparr>) = stored_favorites w"
  "stored_favorites (w\<lparr>products := ps\<rparr>) = stored_favorites w"
  "stored_favorites (w\<lparr>itemWidth := iw\<rparr>) = stored_favorites w"
  by (simp_all add: stored_favorites_def)

lemma FavoriteSet_frame [simp]:
  "FavoriteSet (w\<lparr>scrollLeft := x\<rparr>) = FavoriteSet w"
  "FavoriteSet (w\<lparr>animations := as\<rparr>) = FavoriteSet w"
  "FavoriteSet (w\<lparr>log := l\<rparr>) = FavoriteSet w"
  "FavoriteSet (w\<lparr>items := its\<rparr>) = FavoriteSet w"
  by (simp_all add: FavoriteSet_def)

lemma readable_frame [simp]:
  "readable (w\<lparr>scrollLeft := x\<rparr>) = readable w"
  "readable (w\<lparr>animations := as\<rparr>) = readable w"
  "readable (w\<lparr>log := l\<rparr>) = readable w"
  "readable (w\<lparr>items := its\<rparr>) = readable w"
  by (simp_all add: readable_def)

lemma readableE: "readable w \<Longrightarrow> \<exists>fs. stored_favorites w = Inr fs"
  by (simp add: readable_def split: sum.splits)

lemma in_sync_frame [simp]:
  "in_sync (w\<lparr>scrollLeft := x\<rparr>) = in_sync w"
  "in_sync (w\<lparr>animations := as\<rparr>) = in_sync w"
  "in_sync (w\<lparr>log := l\<rparr>) = in_sync w"
  by (simp_all add: in_sync_def)

lemma in_sync_nth:
  "in_sync w =
     (\<forall>j < length (items w). favorited (items w ! j) = (data_id (items w ! j) \<in> FavoriteSet w))"
  by (simp add: in_sync_def list_all_length)

lemma fetches_frame [simp]:
  "fetches (w\<lparr>items := its\<rparr>) = fetches w"
  "fetches (w\<lparr>products := ps\<rparr>) = fetches w"
  "fetches (w\<lparr>itemWidth := iw\<rparr>) = fetches w"
  "fetches (w\<lparr>rendered := b\<rparr>) = fetches w"
  "fetches (w\<lparr>scrollLeft := x\<rparr>) = fetches w"
  "fetches (w\<lparr>animations := as\<rparr>) = fetches w"
  "fetches (w\<lparr>productCarouselData := c\<rparr>) = fetches w"
  "fetches (w\<lparr>favorites := f\<rparr>) = fetches w"
  by (simp_all add: fetches_def)

lemma reload_frame [simp]:
  "productCarouselData (reload w) = productCarouselData w"
  "favorites (reload w) = favorites w"
  "log (reload w) = log w"
  "fetches (reload w) = fetches w"
  by (simp_all add: reload_def fetches_def)

section \<open>The handlers, click by click\<close>

lemma fav_click_readable:
  assumes "stored_favorites w = Inr fs"
  shows "fav_click i w =
     \<lparr>thrown = None,
      after = w\<lparr>items := (items w)[i := (items w ! i)\<lparr>favorited := \<not> favorited (items w ! i)\<rparr>],
                favorites := Some (JSON_stringify (Array
                   (if \<not> favorited (items w ! i) then fs @ [data_id (items w ! i)]
                    else filter (\<lambda>x. x \<noteq> data_id (items w ! i)) fs))),
                log := log w @ [SetItem favoritesKey]\<rparr>,
      stopped = True\<rparr>"
  using assms by (simp add: fav_click_def Let_def)

lemma fav_click_stopped [simp]: "stopped (fav_click i w) = True"
  by (simp add: fav_click_def Let_def split: sum.splits)

lemma click_NextButton:
  "click lay NextButton w =
     (if rendered w
      then w\<lparr>animations := animations w @
               [case itemWidth w of
                  None \<Rightarrow> maxScrollLeft lay
                | Some iw \<Rightarrow> if scrollLeft w + iw \<le> maxScrollLeft lay
                             then scrollLeft w + iw else maxScrollLeft lay]\<rparr>
      else w)"
  by (simp add: click_def next_click_def Let_def)

lemma click_PrevButton:
  "click lay PrevButton w =
     (if rendered w
      then w\<lparr>animations := animations w @
               [case itemWidth w of
                  None \<Rightarrow> 0
                | Some iw \<Rightarrow> if scrollLeft w - iw \<ge> 0 then scrollLeft w - iw else 0]\<rparr>
      else w)"
  by (simp add: click_def prev_click_def Let_def)

lemma click_ItemArea:
  "click lay (ItemArea i) w =
     (if rendered w \<and> i < length (items w)
      then w\<lparr>log := log w @
              [case products w of
                 Array xs \<Rightarrow>
                   (case has_url (find (\<lambda>p. id' p = data_id (items w ! i)) xs) of
                      Some u \<Rightarrow> WindowOpen u
                    | None \<Rightarrow> ConsoleError (data_id (items w ! i)))
               | _ \<Rightarrow> Uncaught TypeError]\<rparr>
      else w)"
  by (simp add: click_def item_click_def Let_def split: json.splits option.splits)

lemma click_FavButton:
  "click lay (FavButton i) w =
     (if rendered w \<and> i < length (items w)
      then (case thrown (fav_click i w) of
              None \<Rightarrow> after (fav_click i w)
            | Some e \<Rightarrow> (after (fav_click i w))\<lparr>log := log (after (fav_click i w)) @ [Uncaught e]\<rparr>)
      else w)"
  by (simp add: click_def Let_def)

lemma click_FavButton_readable:
  assumes "rendered w" and "i < length (items w)" and "stored_favorites w = Inr fs"
  shows "click lay (FavButton i) w =
      w\<lparr>items := (items w)[i := (items w ! i)\<lparr>favorited := \<not> favorited (items w ! i)\<rparr>],
        favorites := Some (JSON_stringify (Array
           (if \<not> favorited (items w ! i) then fs @ [data_id (items w ! i)]
            else filter (\<lambda>x. x \<noteq> data_id (items w ! i)) fs))),
        log := log w @ [SetItem favoritesKey]\<rparr>"
  using assms by (simp add: click_FavButton fav_click_readable)

lemma run_Nil [simp]: "run lay [] w = w"
  by (simp add: run_def)

lemma run_Cons [simp]: "run lay (h # hs) w = run lay hs (happen lay h w)"
  by (simp add: run_def)

lemma run_append [simp]: "run lay (hs @ hs') w = run lay hs' (run lay hs w)"
  by (simp add: run_def)

lemma click_keeps [simp]:
  "rendered (click lay t w) = rendered w"
  "itemWidth (click lay t w) = itemWidth w"
  "scrollLeft (click lay t w) = scrollLeft w"
proof -
  show "rendered (click lay t w) = rendered w"
    by (cases t) (simp_all add: click_NextButton click_PrevButton click_ItemArea
        click_FavButton fav_click_def Let_def split: sum.splits)
  show "itemWidth (click lay t w) = itemWidth w"
    by (cases t) (simp_all add: click_NextButton click_PrevButton click_ItemArea
        click_FavButton fav_click_def Let_def split: sum.splits)
  show "scrollLeft (click lay t w) = scrollLeft w"
    by (cases t) (simp_all add: click_NextButton click_PrevButton click_ItemArea
        click_FavButton fav_click_def Let_def split: sum.splits)
qed

lemma time_keeps [simp]:
  "rendered (frame p w) = rendered w"
  "itemWidth (frame p w) = itemWidth w"
  "items (frame p w) = items w"
  "rendered (finish w) = rendered w"
  "itemWidth (finish w) = itemWidth w"
  "items (finish w) = items w"
  by (simp_all add: frame_def finish_def split: list.splits)

lemma click_written [simp]:
  "map attr_id (items (click lay t w)) = map attr_id (items w)"
proof (cases t)
  case (FavButton i)
  have "map attr_id ((items w)[i := (items w ! i)\<lparr>favorited := b\<rparr>]) = map attr_id (items w)"
    if "i < length (items w)" for b
    using that by (simp add: map_update list_update_same_conv)
  then show ?thesis
    using FavButton
    by (simp add: click_FavButton fav_click_def Let_def split: sum.splits)
qed (simp_all add: click_NextButton click_PrevButton click_ItemArea)

lemma click_read_back [simp]:
  "map data_id (items (click lay t w)) = map data_id (items w)"
proof (cases t)
  case (FavButton i)
  have "map data_id ((items w)[i := (items w ! i)\<lparr>favorited := b\<rparr>]) = map data_id (items w)"
    if "i < length (items w)" for b
    using that by (simp add: map_update list_update_same_conv)
  then show ?thesis
    using FavButton
    by (simp add: click_FavButton fav_click_def Let_def split: sum.splits)
qed (simp_all add: click_NextButton click_PrevButton click_ItemArea)

lemma happen_written [simp]:
  "map attr_id (items (happen lay h w)) = map attr_id (items w)"
  by (cases h) simp_all

lemma run_written [simp]:
  "map attr_id (items (run lay hs w)) = map attr_id (items w)"
  by (induction hs arbitrary: w) simp_all

section \<open>Restoring the favorites\<close>

lemma length_addClass_favorited [simp]: "length (addClass_favorited sel its) = length its"
  by (simp add: addClass_favorited_def)

lemma addClass_favorited_written [simp]:
  "map attr_id (addClass_favorited sel its) = map attr_id its"
  "map data_id (addClass_favorited sel its) = map data_id its"
  by (simp_all add: addClass_favorited_def)

lemma addClass_favorited_Nil [simp]: "addClass_favorited sel [] = []"
  by (simp add: addClass_favorited_def)

lemma restore_Nil [simp]: "snd (restore lay fs []) = []"
  by (induction fs) (simp_all split: option.splits)

lemma restore_written [simp]:
  "map attr_id (snd (restore lay fs its)) = map attr_id its"
  "map data_id (snd (restore lay fs its)) = map data_id its"
  by (induction fs arbitrary: its) (simp_all split: option.splits)

lemma length_restore [simp]: "length (snd (restore lay fs its)) = length its"
  using restore_written(1) [of lay fs its] by (metis length_map)

lemma restore_nth_written:
  assumes "j < length its"
  shows "attr_id (snd (restore lay fs its) ! j) = attr_id (its ! j)"
    and "data_id (snd (restore lay fs its) ! j) = data_id (its ! j)"
proof -
  show "attr_id (snd (restore lay fs its) ! j) = attr_id (its ! j)"
    using restore_written(1) [of lay fs its] assms by (metis length_restore nth_map)
  show "data_id (snd (restore lay fs its) ! j) = data_id (its ! j)"
    using restore_written(2) [of lay fs its] assms by (metis length_restore nth_map)
qed

text \<open>
  After a restore that did not throw, an item is favorited when it was so before or the
  selector of a stored identifier selected it.
\<close>

lemma favorited_restore:
  assumes "restore lay fs its = (None, its')" and "j < length its"
  shows "favorited (its' ! j)
     = (favorited (its ! j)
        \<or> (\<exists>f \<in> set fs. \<exists>sel. jq_select lay f = Some sel \<and> sel (attr_id (its ! j))))"
  using assms
proof (induction fs arbitrary: its)
  case Nil
  then show ?case by simp
next
  case (Cons x fs)
  from Cons.prems(1) obtain sel where sel: "jq_select lay x = Some sel"
    and rest: "restore lay fs (addClass_favorited sel its) = (None, its')"
    by (auto split: option.splits)
  have "attr_id (addClass_favorited sel its ! j) = attr_id (its ! j)"
    using Cons.prems(2) by (simp add: addClass_favorited_def)
  moreover have "favorited (addClass_favorited sel its ! j)
                   = (favorited (its ! j) \<or> sel (attr_id (its ! j)))"
    using Cons.prems(2) by (simp add: addClass_favorited_def)
  ultimately show ?case
    using Cons.IH [OF rest] Cons.prems(2) sel by auto
qed

section \<open>What init does\<close>

lemma setEvents_frame:
  "fetches (snd (setEvents lay ps w)) = fetches w"
  "products (snd (setEvents lay ps w)) = ps"
  "map attr_id (items (snd (setEvents lay ps w))) = map attr_id (items w)"
  "productCarouselData (snd (setEvents lay ps w)) = productCarouselData w"
  "log (snd (setEvents lay ps w)) =
     log w @ (case fst (setEvents lay ps w) of None \<Rightarrow> [RestoreFavorites] | Some e \<Rightarrow> [])"
proof -
  have its: "items (snd (setEvents lay ps w)) =
      (case stored_favorites w of
         Inl e \<Rightarrow> items w
       | Inr fs \<Rightarrow> snd (restore lay fs (items w)))"
  proof (cases "stored_favorites w")
    case (Inl e)
    then show ?thesis by (simp add: setEvents_def Let_def)
  next
    case (Inr fs)
    obtain r its where "restore lay fs (items w) = (r, its)"
      by (cases "restore lay fs (items w)")
    with Inr show ?thesis
      by (cases r) (simp_all add: setEvents_def Let_def)
  qed
  show "fetches (snd (setEvents lay ps w)) = fetches w"
    by (simp add: setEvents_def Let_def fetches_def split: sum.splits prod.splits option.splits)
  show "products (snd (setEvents lay ps w)) = ps"
    by (simp add: setEvents_def Let_def split: sum.splits prod.splits option.splits)
  show "map attr_id (items (snd (setEvents lay ps w))) = map attr_id (items w)"
    by (simp add: its split: sum.splits)
  show "productCarouselData (snd (setEvents lay ps w)) = productCarouselData w"
    by (simp add: setEvents_def Let_def split: sum.splits prod.splits option.splits)
  show "log (snd (setEvents lay ps w)) =
     log w @ (case fst (setEvents lay ps w) of None \<Rightarrow> [RestoreFavorites] | Some e \<Rightarrow> [])"
    by (simp add: setEvents_def Let_def split: sum.splits prod.splits option.splits)
qed

lemma init_cached:
  assumes "JSON_parse (productCarouselData w) = Inr (Array xs)"
  shows "init lay net w =
     setEvents lay (Array xs)
       (w\<lparr>rendered := True,
          items := map (\<lambda>product. \<lparr>attr_id = id' product,
                                   data_id = jq_data lay (id' product),
                                   favorited = False\<rparr>) xs,
          scrollLeft := 0,
          animations := [],
          log := log w @ [Render]\<rparr>)"
  using assms by (simp add: init_def buildHTML_def)

lemma init_fetched:
  assumes "JSON_parse (productCarouselData w) = Inr Falsy"
    and "net = Some r" and "ok r" and "body r = Json (Array xs)"
  shows "init lay net w =
     setEvents lay (Array xs)
       (w\<lparr>productCarouselData := Some (JSON_stringify (Array xs)),
          rendered := True,
          items := map (\<lambda>product. \<lparr>attr_id = id' product,
                                   data_id = jq_data lay (id' product),
                                   favorited = False\<rparr>) xs,
          scrollLeft := 0,
          animations := [],
          log := log w @ [Fetch, SetItem localStorageKey, Render]\<rparr>)"
  using assms by (simp add: init_def buildHTML_def fetchProducts_def Let_def)

lemma init_cached_facts:
  assumes "JSON_parse (productCarouselData w) = Inr (Array xs)"
  shows "fetches (snd (init lay net w)) = fetches w"
    and "products (snd (init lay net w)) = Array xs"
    and "map attr_id (items (snd (init lay net w))) = map id' xs"
    and "productCarouselData (snd (init lay net w)) = productCarouselData w"
  by (simp_all add: init_cached [OF assms] setEvents_frame fetches_def comp_def)

lemma init_fetched_facts:
  assumes "productCarouselData w = None" and "net = Some r" and "ok r"
    and "body r = Json (Array xs)"
  shows "fetches (snd (init lay net w)) = fetches w + 1"
    and "products (snd (init lay net w)) = Array xs"
    and "map attr_id (items (snd (init lay net w))) = map id' xs"
    and "productCarouselData (snd (init lay net w)) = Some (JSON_stringify (Array xs))"
    and "log (snd (init lay net w)) = log w @ [Fetch, SetItem localStorageKey, Render] @
           (case fst (init lay net w) of None \<Rightarrow> [RestoreFavorites] | Some e \<Rightarrow> [])"
proof -
  have "JSON_parse (productCarouselData w) = Inr Falsy"
    using assms(1) by simp
  note eq = init_fetched [OF this assms(2-4)]
  show "fetches (snd (init lay net w)) = fetches w + 1"
    by (simp add: eq setEvents_frame) (simp add: fetches_def)
  show "products (snd (init lay net w)) = Array xs"
    by (simp add: eq setEvents_frame)
  show "map attr_id (items (snd (init lay net w))) = map id' xs"
    by (simp add: eq setEvents_frame comp_def)
  show "productCarouselData (snd (init lay net w)) = Some (JSON_stringify (Array xs))"
    by (simp add: eq setEvents_frame)
  show "log (snd (init lay net w)) = log w @ [Fetch, SetItem localStorageKey, Render] @
           (case fst (init lay net w) of None \<Rightarrow> [RestoreFavorites] | Some e \<Rightarrow> [])"
    by (simp add: eq setEvents_frame)
qed

text \<open>What a completed init leaves.\<close>

lemma init_completed:
  assumes "init lay net w = (None, w')"
  shows "\<exists>xs fs pre. products w' = Array xs \<and> rendered w'
      \<and> stored_favorites w' = Inr fs
      \<and> restore lay fs (map (\<lambda>product. \<lparr>attr_id = id' product,
                                           data_id = jq_data lay (id' product),
                                           favorited = False\<rparr>) xs) = (None, items w')
      \<and> log w' = log w @ pre @ [Render, RestoreFavorites]
      \<and> (pre = [] \<or> pre = [Fetch, SetItem localStorageKey])"
  using assms
  apply (simp add: init_def buildHTML_def fetchProducts_def Let_def setEvents_def
        stored_favorites_def
        split: sum.splits if_splits json.splits option.splits prod.splits)
  apply auto
  done

lemma init_log:
  assumes "init lay net w = (None, w')"
  shows "drop (length (log w)) (log w') = [Render, RestoreFavorites]
       \<or> drop (length (log w)) (log w')
           = [Fetch, SetItem localStorageKey, Render, RestoreFavorites]"
  using init_completed [OF assms] by auto

lemma init_written:
  fixes w' :: "'id world"
  assumes "init lay net w = (None, w')" and "products w' = Array xs"
  shows "map attr_id (items w') = map id' xs"
proof -
  obtain ys :: "'id product list" and fs where "products w' = Array ys"
    and its: "restore lay fs (map (\<lambda>product. \<lparr>attr_id = id' product,
                data_id = jq_data lay (id' product), favorited = False\<rparr>) ys) = (None, items w')"
    using init_completed [OF assms(1)] by blast
  then have "items w' = snd (restore lay fs (map (\<lambda>product. \<lparr>attr_id = id' product,
                data_id = jq_data lay (id' product), favorited = False\<rparr>) xs))"
    using assms(2) by simp
  then show ?thesis
    by (simp add: comp_def)
qed

lemma init_read_back:
  fixes w' :: "'id world"
  assumes "init lay net w = (None, w')" and "products w' = Array xs"
  shows "map data_id (items w') = map (\<lambda>product. jq_data lay (id' product)) xs"
proof -
  obtain ys :: "'id product list" and fs where "products w' = Array ys"
    and its: "restore lay fs (map (\<lambda>product. \<lparr>attr_id = id' product,
                data_id = jq_data lay (id' product), favorited = False\<rparr>) ys) = (None, items w')"
    using init_completed [OF assms(1)] by blast
  then have "items w' = snd (restore lay fs (map (\<lambda>product. \<lparr>attr_id = id' product,
                data_id = jq_data lay (id' product), favorited = False\<rparr>) xs))"
    using assms(2) by simp
  then show ?thesis
    by (simp add: comp_def)
qed

text \<open>
  On a page that keeps the identifiers, a completed init leaves every item with the
  identifier of its product and with the class of a stored favorite.
\<close>

lemma init_kept:
  fixes w' :: "'id world"
  assumes fin: "init lay net w = (None, w')" and xs: "products w' = Array xs"
    and fs: "stored_favorites w' = Inr fs" and keeps: "keeps lay (map id' xs) fs"
  shows "in_sync w'" and "readable w'" and "rendered w'"
    and "map data_id (items w') = map id' xs"
proof -
  let ?base = "map (\<lambda>product. \<lparr>attr_id = id' product, data_id = jq_data lay (id' product),
                               favorited = False\<rparr>) xs"
  have r: "rendered w'" and its: "restore lay fs ?base = (None, items w')"
    using init_completed [OF fin] xs fs by auto
  have len: "length (items w') = length xs"
    using length_restore [of lay fs ?base] its by simp
  have rb: "jq_data lay (id' (xs ! j)) = id' (xs ! j)" if "j < length xs" for j
    using keeps that by (simp add: keeps_def list_all_length)
  have sel: "\<exists>sel. jq_select lay f = Some sel \<and> (\<forall>j < length xs. sel (id' (xs ! j)) = (id' (xs ! j) = f))"
    if "f \<in> set fs" for f
    using keeps that by (auto simp: keeps_def list_all_iff split: option.splits)
  have dat: "data_id (items w' ! j) = id' (xs ! j)" if "j < length xs" for j
    using restore_nth_written(2) [of j ?base lay fs] its that rb by simp
  have fav: "favorited (items w' ! j) = (id' (xs ! j) \<in> set fs)" if j: "j < length xs" for j
  proof -
    have "favorited (items w' ! j)
        = (\<exists>f \<in> set fs. \<exists>sel. jq_select lay f = Some sel \<and> sel (id' (xs ! j)))"
      using favorited_restore [OF its, of j] j by simp
    also have "\<dots> = (id' (xs ! j) \<in> set fs)"
      using sel j by fastforce
    finally show ?thesis .
  qed
  show "rendered w'" by (rule r)
  show "readable w'" using fs by (simp add: readable_def)
  show "map data_id (items w') = map id' xs"
    using dat len by (simp add: list_eq_iff_nth_eq)
  have "FavoriteSet w' = set fs"
    using fs by (simp add: FavoriteSet_def)
  then show "in_sync w'"
    using dat fav len by (simp add: in_sync_nth)
qed

section \<open>The toggle keeps the page and the store in step\<close>

lemma toggle_in_sync:
  assumes sync: "in_sync w" and fs: "stored_favorites w = Inr fs"
    and dist: "distinct (map data_id (items w))"
    and i: "rendered w" "i < length (items w)"
  shows "in_sync (click lay (FavButton i) w)"
proof -
  let ?it = "items w ! i"
  let ?fs' = "if \<not> favorited ?it then fs @ [data_id ?it]
              else filter (\<lambda>x. x \<noteq> data_id ?it) fs"
  let ?w' = "click lay (FavButton i) w"
  have w': "?w' = w\<lparr>items := (items w)[i := ?it\<lparr>favorited := \<not> favorited ?it\<rparr>],
                favorites := Some (JSON_stringify (Array ?fs')),
                log := log w @ [SetItem favoritesKey]\<rparr>"
    using i fs by (rule click_FavButton_readable)
  have set': "FavoriteSet ?w' = set ?fs'"
    unfolding w' by (simp add: FavoriteSet_def)
  have set0: "FavoriteSet w = set fs"
    using fs by (simp add: FavoriteSet_def)
  have "favorited (items ?w' ! j) = (data_id (items ?w' ! j) \<in> FavoriteSet ?w')"
    if j: "j < length (items w)" for j
  proof (cases "j = i")
    case True
    then show ?thesis
      unfolding set' using i by (simp add: w')
  next
    case False
    have "data_id (items w ! j) \<noteq> data_id ?it"
      using dist False j i(2) by (simp add: distinct_conv_nth)
    moreover have "favorited (items w ! j) = (data_id (items w ! j) \<in> set fs)"
      using sync j set0 by (simp add: in_sync_nth)
    ultimately show ?thesis
      unfolding set' using False j by (simp add: w')
  qed
  moreover have "length (items ?w') = length (items w)"
    by (simp add: w')
  ultimately show ?thesis
    by (simp add: in_sync_nth)
qed

lemma steady_click:
  assumes "steady w"
  shows "steady (click lay t w)"
proof (cases t)
  case NextButton
  with assms show ?thesis by (simp add: steady_def click_NextButton)
next
  case PrevButton
  with assms show ?thesis by (simp add: steady_def click_PrevButton)
next
  case (ItemArea i)
  with assms show ?thesis by (simp add: steady_def click_ItemArea)
next
  case (FavButton i)
  show ?thesis
  proof (cases "rendered w \<and> i < length (items w)")
    case False
    with assms FavButton show ?thesis by (auto simp: click_FavButton)
  next
    case True
    obtain fs where fs: "stored_favorites w = Inr fs"
      using assms readableE by (auto simp: steady_def)
    have "in_sync (click lay (FavButton i) w)"
      using assms fs True by (simp add: toggle_in_sync steady_def)
    moreover have "readable (click lay (FavButton i) w)"
      using True fs by (simp add: click_FavButton_readable readable_def)
    ultimately show ?thesis
      using assms FavButton by (simp add: steady_def)
  qed
qed

lemma steady_time: "steady (frame p w) = steady w" "steady (finish w) = steady w"
  by (simp_all add: steady_def frame_def finish_def split: list.splits)

lemma steady_happen: "steady w \<Longrightarrow> steady (happen lay h w)"
  by (cases h) (simp_all add: steady_click steady_time)

lemma steady_run: "steady w \<Longrightarrow> steady (run lay hs w)"
  by (induction hs arbitrary: w) (simp_all add: steady_happen)

section \<open>Scrolling\<close>







section \<open>The script on the shop\<close>

lemmas example_defs = fresh_def shirt_def scarf_def hat_def shirt_again_def feed_def
  outage_def twin_feed_def screen_def narrowed_def loaded_def returning_def restored_def corrupt_def
  twins_def

lemmas script_defs = init_def fetchProducts_def buildHTML_def setEvents_def
  stored_favorites_def addClass_favorited_def JSON_stringify_def Let_def

lemmas click_defs = click_def run_def next_click_def prev_click_def item_click_def
  fav_click_def frame_def finish_def maxScrollLeft_def stored_favorites_def
  JSON_stringify_def Let_def

lemma init_feed: "init screen (Some feed) fresh = (None, loaded)"
  by (simp add: example_defs script_defs)

lemma init_returning: "init screen None returning = (None, restored)"
  by (simp add: example_defs script_defs)

lemma init_twin_feed: "init screen (Some twin_feed) fresh = (None, twins)"
  by (simp add: example_defs script_defs)


section \<open>The claims\<close>

subsection \<open>C1: the cache comes first, and is filled once\<close>

text \<open>
  C1. When the stored value under \<^verbatim>\<open>productCarouselData\<close> parses to a product
  sequence \<open>xs\<close>, \<^verbatim>\<open>init\<close> uses \<open>xs\<close> (it is what the handlers close over and what
  the items are written from) and fetches nothing. When nothing is stored and the network
  answers with the sequence \<open>xs\<close>, \<^verbatim>\<open>init\<close> fetches once and writes \<open>xs\<close> to the
  store before it renders: its events are \<open>Fetch\<close>, \<open>SetItem\<close>, \<open>Render\<close> in this
  order. A second \<^verbatim>\<open>init\<close> after a page load, whatever the network does then, fetches
  nothing more and uses \<open>xs\<close>: one fetch in all.
\<close>

theorem init_cache_first:
  fixes w :: "'id world"
  shows
   "(JSON_parse (productCarouselData w) = Inr (Array xs) \<longrightarrow>
       fetches (snd (init lay net w)) = fetches w
     \<and> products (snd (init lay net w)) = Array xs
     \<and> map attr_id (items (snd (init lay net w))) = map id' xs)
  \<and> (productCarouselData w = None \<and> net = Some r \<and> ok r \<and> body r = Json (Array xs) \<longrightarrow>
       fetches (snd (init lay net w)) = fetches w + 1
     \<and> productCarouselData (snd (init lay net w)) = Some (JSON_stringify (Array xs))
     \<and> log (snd (init lay net w)) = log w @ [Fetch, SetItem localStorageKey, Render] @
           (case fst (init lay net w) of None \<Rightarrow> [RestoreFavorites] | Some e \<Rightarrow> [])
     \<and> products (snd (init lay net w)) = Array xs
     \<and> map attr_id (items (snd (init lay net w))) = map id' xs
     \<and> fetches (snd (init lay' net' (reload (snd (init lay net w))))) = fetches w + 1
     \<and> products (snd (init lay' net' (reload (snd (init lay net w))))) = Array xs
     \<and> map attr_id (items (snd (init lay' net' (reload (snd (init lay net w))))))
          = map id' xs)"
proof (intro conjI impI)
  assume cached: "JSON_parse (productCarouselData w) = Inr (Array xs)"
  show "fetches (snd (init lay net w)) = fetches w"
    and "products (snd (init lay net w)) = Array xs"
    and "map attr_id (items (snd (init lay net w))) = map id' xs"
    by (rule init_cached_facts [OF cached])+
next
  assume "productCarouselData w = None \<and> net = Some r \<and> ok r \<and> body r = Json (Array xs)"
  then have absent: "productCarouselData w = None" "net = Some r" "ok r"
    "body r = Json (Array xs)"
    by simp_all
  let ?w1 = "snd (init lay net w)"
  show one: "fetches ?w1 = fetches w + 1"
    and stored: "productCarouselData ?w1 = Some (JSON_stringify (Array xs))"
    and "log ?w1 = log w @ [Fetch, SetItem localStorageKey, Render] @
           (case fst (init lay net w) of None \<Rightarrow> [RestoreFavorites] | Some e \<Rightarrow> [])"
    and "products ?w1 = Array xs"
    and "map attr_id (items ?w1) = map id' xs"
    by (rule init_fetched_facts [OF absent])+
  have again: "JSON_parse (productCarouselData (reload ?w1)) = Inr (Array xs)"
    by (simp add: stored JSON_stringify_def)
  show "fetches (snd (init lay' net' (reload ?w1))) = fetches w + 1"
    using init_cached_facts(1) [OF again] one by simp
  show "products (snd (init lay' net' (reload ?w1))) = Array xs"
    by (rule init_cached_facts(2) [OF again])
  show "map attr_id (items (snd (init lay' net' (reload ?w1)))) = map id' xs"
    by (rule init_cached_facts(3) [OF again])
qed

theorem init_cache_first_witness:
  "JSON_parse (productCarouselData returning) = Inr (Array [shirt, scarf, hat])
   \<and> fetches (snd (init screen None returning)) = 0
   \<and> map attr_id (items (snd (init screen None returning))) = [1, 2, 3]
   \<and> productCarouselData (fresh :: int world) = None \<and> ok feed
   \<and> body feed = Json (Array [shirt, scarf, hat])
   \<and> fetches (snd (init screen (Some feed) fresh)) = 1
   \<and> log (snd (init screen (Some feed) fresh))
        = [Fetch, SetItem localStorageKey, Render, RestoreFavorites]
   \<and> fetches (snd (init screen None (reload (snd (init screen (Some feed) fresh))))) = 1
   \<and> products (snd (init screen None (reload (snd (init screen (Some feed) fresh)))))
        = Array [shirt, scarf, hat]"
  using init_cache_first [where w = returning and xs = "[shirt, scarf, hat]" and lay = screen
      and net = None]
    init_cache_first [where w = fresh and xs = "[shirt, scarf, hat]" and lay = screen
      and net = "Some feed" and r = feed and lay' = screen and net' = None]
  by (simp add: init_feed)
     (simp add: returning_def fresh_def feed_def fetches_def shirt_def scarf_def hat_def)

subsection \<open>C2: the classes on the page follow the stored favorites\<close>

text \<open>
  C2, as claimed, fails. A feed may serve two products under one identifier. \<^verbatim>\<open>init\<close>
  completes on it with the page and the store in step; a click on the favorite button of
  the first of the two gives the class to this one item and stores the identifier, and
  the second item, of the same identifier, is left without the class.
\<close>

theorem drift_counterexample:
  "init screen (Some twin_feed) fresh = (None, twins)
   \<and> in_sync twins
   \<and> map favorited (items twins_toggled) = [True, False]
   \<and> map data_id (items twins_toggled) = [1, 1]
   \<and> FavoriteSet twins_toggled = {1}
   \<and> \<not> in_sync twins_toggled"
  by (simp add: init_twin_feed)
     (simp add: twins_toggled_def twins_def screen_def click_defs in_sync_def FavoriteSet_def)

text \<open>
  C2, amended. Let \<^verbatim>\<open>init\<close> complete, having rendered the product sequence \<open>xs\<close> with
  the favorites \<open>fs\<close> in the store. Then the items are written from \<open>xs\<close>, in order,
  and stay so whatever happens next; each is read back with what jQuery makes of the
  identifier of its product; and the favorites are restored once per \<^verbatim>\<open>init\<close>,
  after the items are rendered: the events of \<^verbatim>\<open>init\<close> end with \<open>Render\<close>,
  \<open>RestoreFavorites\<close>. On a page that keeps these identifiers as they are (\<open>keeps\<close>, as
  a page does with numbers), right after \<^verbatim>\<open>init\<close> every item has the class
  \<^verbatim>\<open>favorited\<close> exactly when the identifier of its product is in the stored favorites
  (\<open>in_sync\<close>); and when no two products of \<open>xs\<close> share an identifier, the same holds
  after anything that happens next, the toggles among it.
\<close>

theorem no_drift:
  assumes "init lay net w = (None, w')" and "products w' = Array xs"
    and "stored_favorites w' = Inr fs"
  shows "map attr_id (items (run lay' hs w')) = map id' xs
       \<and> map data_id (items w') = map (\<lambda>product. jq_data lay (id' product)) xs
       \<and> drop (length (log w)) (log w') \<in>
            {[Render, RestoreFavorites],
             [Fetch, SetItem localStorageKey, Render, RestoreFavorites]}
       \<and> (keeps lay (map id' xs) fs \<longrightarrow>
             map data_id (items w') = map id' xs
           \<and> in_sync w'
           \<and> (distinct (map id' xs) \<longrightarrow> in_sync (run lay' hs w')))"
proof -
  have "map data_id (items w') = map id' xs \<and> in_sync w'
      \<and> (distinct (map id' xs) \<longrightarrow> in_sync (run lay' hs w'))"
    if keeps: "keeps lay (map id' xs) fs"
  proof -
    note kept = init_kept [OF assms keeps]
    have "in_sync (run lay' hs w')" if "distinct (map id' xs)"
    proof -
      have "steady w'"
        using kept that by (simp add: steady_def)
      then have "steady (run lay' hs w')"
        by (rule steady_run)
      then show ?thesis
        by (simp add: steady_def)
    qed
    then show ?thesis
      using kept by simp
  qed
  then show ?thesis
    using init_written [OF assms(1,2)] init_read_back [OF assms(1,2)] init_log [OF assms(1)]
    by auto
qed

theorem no_drift_witness:
  "init screen None returning = (None, restored)
   \<and> products restored = Array [shirt, scarf, hat]
   \<and> stored_favorites restored = Inr [2, 7]
   \<and> keeps screen (map id' [shirt, scarf, hat]) [2, 7]
   \<and> distinct (map id' [shirt, scarf, hat])
   \<and> map favorited (items restored) = [False, True, False]
   \<and> FavoriteSet restored = {2, 7}
   \<and> in_sync restored
   \<and> in_sync (run screen [Click (FavButton 0), Click NextButton, Click (FavButton 1),
                            Finish, Click (ItemArea 2)] restored)"
  using no_drift [OF init_returning, where xs = "[shirt, scarf, hat]" and fs = "[2, 7]"
      and lay' = screen
      and hs = "[Click (FavButton 0), Click NextButton, Click (FavButton 1),
                 Finish, Click (ItemArea 2)]"]
  by (simp add: init_returning)
     (simp add: example_defs FavoriteSet_def stored_favorites_def keeps_def)

subsection \<open>C3: a cache that is not JSON\<close>

text \<open>
  C3, as claimed, fails: with \<^verbatim>\<open>{not valid json\<close> stored under
  \<^verbatim>\<open>productCarouselData\<close> and a network that would serve the products,
  \<^verbatim>\<open>init\<close> ends with the \<open>SyntaxError\<close> of \<^verbatim>\<open>JSON.parse\<close> and fetches nothing.
\<close>

theorem corrupt_cache_counterexample:
  "fst (init screen (Some feed) corrupt) = Some SyntaxError
   \<and> fetches (snd (init screen (Some feed) corrupt)) = 0
   \<and> \<not> rendered (snd (init screen (Some feed) corrupt))"
  by (simp add: init_def corrupt_def fresh_def fetches_def)

text \<open>
  C3, amended. When the stored value under \<^verbatim>\<open>productCarouselData\<close> is not JSON,
  \<^verbatim>\<open>init\<close> ends with a \<open>SyntaxError\<close> before it does anything: no fetch, nothing
  stored, nothing rendered.
\<close>

theorem corrupt_cache_fails:
  assumes "productCarouselData w = Some (Malformed s)"
  shows "init lay net w = (Some SyntaxError, w)"
  using assms by (simp add: init_def)

theorem corrupt_cache_fails_witness:
  "productCarouselData corrupt = Some (Malformed ''{not valid json'')
   \<and> init screen (Some feed) corrupt = (Some SyntaxError, corrupt)"
  using corrupt_cache_fails [where w = corrupt and s = "''{not valid json''" and lay = screen
      and net = "Some feed"]
  by (simp add: corrupt_def)

subsection \<open>C4: a toggle rewrites the stored favorites\<close>

text \<open>
  C4. A click on the favorite button of a rendered item with identifier \<open>x\<close>, when the
  store holds the favorites \<open>fs\<close>, toggles the class of the item. If the item is now
  favorited the store holds \<open>fs\<close> with \<open>x\<close> appended, otherwise \<open>fs\<close> with every
  \<open>x\<close> removed; the write (\<open>SetItem favoritesKey\<close>) is the one event of the click.
\<close>

theorem toggle_updates_store:
  assumes "rendered w" and "i < length (items w)" and "stored_favorites w = Inr fs"
  shows "favorited (items (click lay (FavButton i) w) ! i) = (\<not> favorited (items w ! i))
     \<and> stored_favorites (click lay (FavButton i) w) =
         Inr (if favorited (items (click lay (FavButton i) w) ! i)
              then fs @ [data_id (items w ! i)]
              else removeAll (data_id (items w ! i)) fs)
     \<and> favorites (click lay (FavButton i) w) =
         Some (JSON_stringify (Array
           (if favorited (items (click lay (FavButton i) w) ! i)
            then fs @ [data_id (items w ! i)]
            else removeAll (data_id (items w ! i)) fs)))
     \<and> log (click lay (FavButton i) w) = log w @ [SetItem favoritesKey]"
proof -
  have "filter (\<lambda>x. x \<noteq> data_id (items w ! i)) fs = removeAll (data_id (items w ! i)) fs"
    by (induction fs) auto
  then show ?thesis
    using assms by (simp add: click_FavButton_readable)
qed

theorem toggle_updates_store_witness:
  "rendered restored \<and> stored_favorites restored = Inr [2, 7]
   \<and> stored_favorites (click screen (FavButton 0) restored) = Inr [2, 7, 1]
   \<and> stored_favorites (click screen (FavButton 1) restored) = Inr [7]
   \<and> log (click screen (FavButton 1) restored)
       = [Render, RestoreFavorites, SetItem favoritesKey]"
  using toggle_updates_store [where w = restored and i = 0 and fs = "[2, 7]" and lay = screen]
    toggle_updates_store [where w = restored and i = 1 and fs = "[2, 7]" and lay = screen]
  by (simp add: restored_def click_defs)

subsection \<open>C5: two toggles undo each other\<close>

text \<open>
  C5, as claimed, fails. On the shop with two shirts under one identifier, after
  \<^verbatim>\<open>init\<close> and a click on the favorite button of the first, the second is without
  the class while its identifier is a stored favorite. Two clicks on the favorite
  button of the second append the identifier and then remove every occurrence of it: the
  set of stored favorites was \<open>{1}\<close> and is empty afterwards.
\<close>

theorem toggle_twice_counterexample:
  "init screen (Some twin_feed) fresh = (None, twins)
   \<and> twins_toggled = click screen (FavButton 0) twins
   \<and> FavoriteSet twins_toggled = {1}
   \<and> FavoriteSet (click screen (FavButton 1) (click screen (FavButton 1) twins_toggled)) = {}"
  by (simp add: init_twin_feed)
     (simp add: twins_toggled_def twins_def screen_def click_defs FavoriteSet_def)

text \<open>
  C5, amended. For every rendered item whose class agrees with the store (it has the
  class \<^verbatim>\<open>favorited\<close> exactly when its identifier is among the stored favorites \<open>fs\<close>),
  two clicks in a row on its favorite button leave the set of stored favorites and the
  classes of all items as they were.
\<close>

theorem toggle_twice:
  assumes r: "rendered w" and i: "i < length (items w)" and fs: "stored_favorites w = Inr fs"
    and sync: "favorited (items w ! i) = (data_id (items w ! i) \<in> set fs)"
  shows "FavoriteSet (click lay (FavButton i) (click lay (FavButton i) w)) = FavoriteSet w
       \<and> items (click lay (FavButton i) (click lay (FavButton i) w)) = items w"
proof -
  let ?x = "data_id (items w ! i)"
  let ?fs1 = "if \<not> favorited (items w ! i) then fs @ [?x] else filter (\<lambda>y. y \<noteq> ?x) fs"
  let ?w1 = "click lay (FavButton i) w"
  have w1: "?w1 = w\<lparr>items := (items w)[i := (items w ! i)\<lparr>favorited := \<not> favorited (items w ! i)\<rparr>],
                favorites := Some (JSON_stringify (Array ?fs1)),
                log := log w @ [SetItem favoritesKey]\<rparr>"
    using r i fs by (rule click_FavButton_readable)
  have r1: "rendered ?w1" and i1: "i < length (items ?w1)"
    and fs1: "stored_favorites ?w1 = Inr ?fs1"
    using r i by (simp_all add: w1)
  have it1: "items ?w1 ! i = (items w ! i)\<lparr>favorited := \<not> favorited (items w ! i)\<rparr>"
    using i by (simp add: w1)
  note w2 = click_FavButton_readable [OF r1 i1 fs1, of lay]
  have "items (click lay (FavButton i) ?w1) = items w"
    unfolding w2 using i by (simp add: it1) (simp add: w1 list_update_same_conv)
  moreover have "FavoriteSet (click lay (FavButton i) ?w1) = set fs"
    unfolding w2 using sync by (auto simp: FavoriteSet_def it1)
  moreover have "FavoriteSet w = set fs"
    using fs by (simp add: FavoriteSet_def)
  ultimately show ?thesis by simp
qed

theorem toggle_twice_witness:
  "rendered restored \<and> stored_favorites restored = Inr [2, 7]
   \<and> favorited (items restored ! 1) = (data_id (items restored ! 1) \<in> set [2, 7])
   \<and> FavoriteSet (click screen (FavButton 1) restored) = {7}
   \<and> FavoriteSet (click screen (FavButton 1) (click screen (FavButton 1) restored)) = {2, 7}
   \<and> items (click screen (FavButton 1) (click screen (FavButton 1) restored)) = items restored"
  using toggle_twice [where w = restored and i = 1 and fs = "[2, 7]" and lay = screen]
  by (simp add: restored_def click_defs FavoriteSet_def)

subsection \<open>C6: the arrows scroll by one item, within the track\<close>




subsection \<open>C7: a click on the favorite button does not reach the item\<close>

text \<open>
  C7. A click on a favorite button, which lies inside its item, runs the handler of the
  button only: the click stops there, and none of its events is one of the item's
  handler, neither an opened URL nor a reported error.
\<close>

theorem favorite_click_never_navigates:
  "dispatch (handlers lay (FavButton i)) w = dispatch [fav_click i] w
   \<and> filter navigation (drop (length (log w)) (log (click lay (FavButton i) w))) = []"
  by (simp add: click_FavButton Let_def fav_click_def split: sum.splits option.splits)

theorem favorite_click_never_navigates_witness:
  "handlers screen (FavButton 0) = [fav_click 0, item_click 0]
   \<and> dispatch (handlers screen (FavButton 0)) restored = dispatch [fav_click 0] restored
   \<and> filter navigation (drop (length (log restored))
        (log (click screen (FavButton 0) restored))) = []
   \<and> log (click screen (FavButton 0) restored)
        = [Render, RestoreFavorites, SetItem favoritesKey]
   \<and> log (click screen (ItemArea 0) restored)
        = [Render, RestoreFavorites, WindowOpen ''https://shop.example/shirt'']"
  using favorite_click_never_navigates [where lay = screen and i = 0 and w = restored]
  by (simp add: restored_def shirt_def scarf_def hat_def click_defs)

subsection \<open>C8: a response that is not OK ends init\<close>

text \<open>
  C8. When the network answers with a response that is not OK, \<^verbatim>\<open>fetchProducts\<close>
  fails with \<open>FetchError\<close>; and \<^verbatim>\<open>init\<close>, when nothing usable is cached, ends with
  that error after its one fetch: nothing is stored, nothing is rendered, and no second
  fetch is made.
\<close>

theorem fetch_error_propagates:
  assumes "JSON_parse (productCarouselData w) = Inr Falsy" and "net = Some r" and "\<not> ok r"
  shows "fetchProducts net = Inl FetchError
       \<and> init lay net w = (Some FetchError, w\<lparr>log := log w @ [Fetch]\<rparr>)"
  using assms by (simp add: init_def fetchProducts_def Let_def)

theorem fetch_error_propagates_witness:
  "JSON_parse (productCarouselData (fresh :: int world)) = Inr Falsy \<and> \<not> ok outage
   \<and> fetchProducts (Some outage) = Inl FetchError
   \<and> init screen (Some outage) fresh = (Some FetchError, fresh\<lparr>log := [Fetch]\<rparr>)
   \<and> fetches (snd (init screen (Some outage) fresh)) = 1
   \<and> \<not> rendered (snd (init screen (Some outage) fresh))
   \<and> productCarouselData (snd (init screen (Some outage) fresh)) = None"
  using fetch_error_propagates [where w = "fresh :: int world" and net = "Some outage"
      and r = outage and lay = screen]
  by (simp add: fresh_def outage_def fetches_def)

subsection \<open>C9: a click on an item opens its URL or reports\<close>



subsection \<open>C10: the arrows and the items leave the store alone\<close>

text \<open>
  C10. A click on the next arrow, on the previous arrow or on an item leaves both keys
  of the store and the class of every item as they were. An arrow changes the scrolling
  only (it queues an animation of the offset), and an item click only adds its event.
  The animations, as they run and end, move the offset and nothing else.
\<close>

theorem navigation_leaves_store_and_classes:
  "productCarouselData (click lay NextButton w) = productCarouselData w
   \<and> favorites (click lay NextButton w) = favorites w
   \<and> items (click lay NextButton w) = items w
   \<and> click lay NextButton w = w\<lparr>animations := animations (click lay NextButton w)\<rparr>
   \<and> productCarouselData (click lay PrevButton w) = productCarouselData w
   \<and> favorites (click lay PrevButton w) = favorites w
   \<and> items (click lay PrevButton w) = items w
   \<and> click lay PrevButton w = w\<lparr>animations := animations (click lay PrevButton w)\<rparr>
   \<and> productCarouselData (click lay (ItemArea i) w) = productCarouselData w
   \<and> favorites (click lay (ItemArea i) w) = favorites w
   \<and> items (click lay (ItemArea i) w) = items w
   \<and> click lay (ItemArea i) w = w\<lparr>log := log (click lay (ItemArea i) w)\<rparr>
   \<and> frame p w = w\<lparr>scrollLeft := scrollLeft (frame p w)\<rparr>
   \<and> finish w = w\<lparr>scrollLeft := scrollLeft (finish w), animations := animations (finish w)\<rparr>"
  by (simp add: click_NextButton click_PrevButton click_ItemArea frame_def finish_def
      split: list.splits)

theorem navigation_leaves_store_and_classes_witness:
  "favorites (click screen NextButton restored) = Some (Json (Array [2, 7]))
   \<and> items (click screen NextButton restored) = items restored
   \<and> animations (click screen NextButton restored) = [100]
   \<and> scrollLeft (finish (click screen NextButton restored)) = 100
   \<and> favorites (finish (click screen NextButton restored)) = Some (Json (Array [2, 7]))
   \<and> favorites (click screen PrevButton restored) = Some (Json (Array [2, 7]))
   \<and> items (click screen PrevButton restored) = items restored
   \<and> favorites (click screen (ItemArea 0) restored) = Some (Json (Array [2, 7]))
   \<and> productCarouselData (click screen (ItemArea 0) restored) = productCarouselData restored
   \<and> items (click screen (ItemArea 0) restored) = items restored"
  using navigation_leaves_store_and_classes [where lay = screen and w = restored and i = 0]
  by (simp add: restored_def screen_def click_NextButton click_PrevButton finish_def
      maxScrollLeft_def)

end
